theory Spec2Isabelle
  imports Main
begin

section \<open>Values, exceptions and the process state\<close>

text \<open>
  The objects \<open>yaml.safe_load\<close> can hand to \<open>create_agent\<close>. A mapping is an
  association list read with \<open>map_of\<close>; only \<open>str\<close> keys are kept, since every lookup
  of the program uses a \<open>str\<close> literal and no other loaded key compares equal to one.
  \<open>POther t r\<close> stands for the remaining scalars (float, timestamp, binary) with their
  truth value \<open>t\<close> and printed form \<open>r\<close>; a loaded set answers the operations used here
  (truth value, \<open>in\<close>, indexing by a \<open>str\<close>, \<open>isinstance(_, dict)\<close>) as a list does.
\<close>

datatype pyval =
    PNone
  | PBool bool
  | PInt int
  | PStr string
  | PList "pyval list"
  | PDict "(string \<times> pyval) list"
  | POther bool string

text \<open>
  An exception value is an instance of \<open>Exception\<close>, the class named by every
  \<open>except Exception\<close> handler of the file: its class name, whether the class derives
  from \<open>ImportError\<close> (what \<open>except ImportError\<close> tests), and \<open>str(e)\<close>.
\<close>

datatype exn = Exn (exn_class: string) (is_ImportError: bool) (str_of: string)

datatype level = DEBUG | INFO | ERROR

text \<open>
  The three nested dict objects that the literal of \<open>DEFAULT_PROMPTS\<close> creates when the
  module is loaded. No other dict object of the program is ever written through a second
  reference, so these are the addresses of the store.
\<close>

datatype obj_id = FinalAnswerObj | PlanningObj | ManagedAgentObj

type_synonym dict_obj = "(string \<times> pyval) list"

text \<open>
  A top-level template dict: the value under \<open>system_prompt\<close> and, under the three
  other keys, references to nested dict objects. The program builds top-level dicts
  only from the literal and by \<open>.copy()\<close>, and assigns at top level only to
  \<open>system_prompt\<close>.
\<close>

record prompt_dict =
  system_prompt :: pyval
  final_answer :: obj_id
  planning :: obj_id
  managed_agent :: obj_id

datatype tool =
    My_custom_tool
  | Get_current_time_in_timezone
  | FinalAnswerTool
  | VisitWebpageTool
  | Hub_tool string

text \<open>
  The keyword arguments of \<open>CodeAgent(...)\<close>, lines 137 to 147; an agent, once the
  constructor has accepted them.
\<close>

datatype hf_model = HfApiModel

record agent =
  model :: hf_model
  tools :: "tool list"
  max_steps :: nat
  verbosity_level :: nat
  grammar :: "unit option"
  planning_interval :: "nat option"
  name :: string
  description :: string
  prompt_templates :: prompt_dict

text \<open>What the program does to the outside, in order: loguru records, \<open>print\<close>, and the
  calls into the libraries.\<close>

datatype extcall =
    New_FinalAnswerTool
  | New_VisitWebpageTool
  | New_HfApiModel
  | Call_load_tool string
  | Open_file string
  | New_CodeAgent agent
  | Import_gradio
  | Build_blocks
  | Launch_demo
  | Call_agent string
  | Call_pytz_timezone string

datatype event = Log level string | Print string | Called extcall

record pystate =
  DEFAULT_PROMPTS :: prompt_dict
  store :: "obj_id \<Rightarrow> dict_obj"
  trace :: "event list"

definition emit :: "event \<Rightarrow> pystate \<Rightarrow> pystate" where
  "emit ev s = s\<lparr>trace := trace s @ [ev]\<rparr>"

section \<open>The time tool\<close>

datatype tzinfo = Tzinfo string

text \<open>
  The libraries behind \<open>get_current_time_in_timezone\<close>: \<open>pytz.timezone\<close>,
  \<open>datetime.datetime.now(tz).strftime(fmt)\<close> and the builtin \<open>repr\<close> on \<open>str\<close>
  (used by the \<open>{timezone=}\<close> field of the debug record).
\<close>

record clock_env =
  pytz_timezone :: "string \<Rightarrow> exn + tzinfo"
  now_strftime :: "tzinfo \<Rightarrow> string \<Rightarrow> exn + string"
  repr_str :: "string \<Rightarrow> string"

definition time_error :: "string \<Rightarrow> exn \<Rightarrow> pystate \<Rightarrow> (exn + string) \<times> pystate" where
  "time_error timezone e s =
     (Inr (''Error fetching time for timezone '' @ [CHR 0x27] @ timezone @ [CHR 0x27]
            @ '': '' @ str_of e),
      emit (Log ERROR (str_of e)) s)"

definition get_current_time_in_timezone ::
  "clock_env \<Rightarrow> string \<Rightarrow> pystate \<Rightarrow> (exn + string) \<times> pystate" where
  "get_current_time_in_timezone env timezone s =
     (let s1 = emit (Log DEBUG (''get_current_time_in_timezone timezone='' @ repr_str env timezone)) s;
          s2 = emit (Called (Call_pytz_timezone timezone)) s1
      in case pytz_timezone env timezone of
           Inl e \<Rightarrow> time_error timezone e s2
         | Inr tz \<Rightarrow>
             (case now_strftime env tz ''%Y-%m-%d %H:%M:%S'' of
                Inl e \<Rightarrow> time_error timezone e s2
              | Inr local_time \<Rightarrow>
                  (Inr (''The current local time in '' @ timezone @ '' is: '' @ local_time), s2)))"

section \<open>Python's operations on loaded values\<close>

text \<open>\<open>needle in haystack\<close> on two \<open>str\<close>.\<close>

fun starts_with :: "string \<Rightarrow> string \<Rightarrow> bool" where
  "starts_with [] ys = True"
| "starts_with (x # xs) [] = False"
| "starts_with (x # xs) (y # ys) = (x = y \<and> starts_with xs ys)"

fun str_contains :: "string \<Rightarrow> string \<Rightarrow> bool" where
  "str_contains needle [] = (needle = [])"
| "str_contains needle (y # ys) = (starts_with needle (y # ys) \<or> str_contains needle ys)"

text \<open>\<open>bool(v)\<close>, as \<open>if loaded_prompts:\<close> and \<open>if image_generation_tool:\<close> take it.\<close>

fun py_truthy :: "pyval \<Rightarrow> bool" where
  "py_truthy PNone = False"
| "py_truthy (PBool b) = b"
| "py_truthy (PInt i) = (i \<noteq> 0)"
| "py_truthy (PStr s) = (s \<noteq> [])"
| "py_truthy (PList xs) = (xs \<noteq> [])"
| "py_truthy (PDict kvs) = (kvs \<noteq> [])"
| "py_truthy (POther t r) = t"

definition TypeError :: "string \<Rightarrow> exn" where
  "TypeError m = Exn ''TypeError'' False m"

definition KeyError :: "string \<Rightarrow> exn" where
  "KeyError k = Exn ''KeyError'' False ([CHR 0x27] @ k @ [CHR 0x27])"

text \<open>\<open>key in v\<close> for a \<open>str\<close> key: key membership in a mapping, substring test in a
  \<open>str\<close>, element test in a list, \<open>TypeError\<close> on anything else.\<close>

fun py_contains :: "string \<Rightarrow> pyval \<Rightarrow> exn + bool" where
  "py_contains k (PDict kvs) = Inr (map_of kvs k \<noteq> None)"
| "py_contains k (PStr s) = Inr (str_contains k s)"
| "py_contains k (PList xs) = Inr (List.member xs (PStr k))"
| "py_contains k v = Inl (TypeError ''argument is not iterable'')"

text \<open>\<open>v[key]\<close> for a \<open>str\<close> key.\<close>

fun py_getitem :: "pyval \<Rightarrow> string \<Rightarrow> exn + pyval" where
  "py_getitem (PDict kvs) k = (case map_of kvs k of Some v \<Rightarrow> Inr v | None \<Rightarrow> Inl (KeyError k))"
| "py_getitem (PStr s) k = Inl (TypeError ''string indices must be integers'')"
| "py_getitem (PList xs) k = Inl (TypeError ''list indices must be integers or slices, not str'')"
| "py_getitem v k = Inl (TypeError ''object is not subscriptable'')"

fun isinstance_dict :: "pyval \<Rightarrow> bool" where
  "isinstance_dict (PDict kvs) = True"
| "isinstance_dict v = False"

text \<open>\<open>d[key] = v\<close> on a dict object: an existing key keeps its place, a new one goes last.\<close>

fun dict_set :: "dict_obj \<Rightarrow> string \<Rightarrow> pyval \<Rightarrow> dict_obj" where
  "dict_set [] k v = [(k, v)]"
| "dict_set ((k', v') # kvs) k v =
     (if k' = k then (k, v) # kvs else (k', v') # dict_set kvs k v)"

section \<open>The compiled-in defaults\<close>

definition final_answer_default :: dict_obj where
  "final_answer_default =
     [(''pre_messages'', PStr ''Here is the final answer to your question:''),
      (''post_messages'', PStr ''Hope this helps!'')]"

definition planning_default :: dict_obj where
  "planning_default =
     [(''initial_facts'', PStr (''First, let'' @ [CHR 0x27] @ ''s identify what we know and what we need to find out.'')),
      (''initial_plan'', PStr (''Let'' @ [CHR 0x27] @ ''s develop a step-by-step plan to solve this task.'')),
      (''update_facts_pre_messages'', PStr (''Let'' @ [CHR 0x27] @ ''s update what we know based on our progress.'')),
      (''update_facts_post_messages'', PStr (''Here'' @ [CHR 0x27] @ ''s our updated knowledge about the task.'')),
      (''update_plan_pre_messages'', PStr (''Let'' @ [CHR 0x27] @ ''s review our plan based on what we'' @ [CHR 0x27] @ ''ve learned.'')),
      (''update_plan_post_messages'', PStr (''Here'' @ [CHR 0x27] @ ''s our revised plan to complete the task.''))]"

definition managed_agent_default :: dict_obj where
  "managed_agent_default =
     [(''task'', PStr (''You'' @ [CHR 0x27] @ ''re a helpful agent named '' @ [CHR 0x27] @ ''{{name}}'' @ [CHR 0x27]
                       @ ''. You have been submitted this task by your manager.'')),
      (''report'', PStr (''Here is the final answer from your managed agent '' @ [CHR 0x27] @ ''{{name}}'' @ [CHR 0x27]
                         @ '': {{final_answer}}''))]"

definition system_prompt_default :: pyval where
  "system_prompt_default = PStr ''You are an expert assistant who can solve any task using code blobs.''"

text \<open>The literal of \<open>DEFAULT_PROMPTS\<close> as a value, the way it is written in the source.\<close>

definition DEFAULT_PROMPTS_literal :: pyval where
  "DEFAULT_PROMPTS_literal =
     PDict [(''system_prompt'', system_prompt_default),
            (''final_answer'', PDict final_answer_default),
            (''planning'', PDict planning_default),
            (''managed_agent'', PDict managed_agent_default)]"

text \<open>The state once the module is loaded: the literal has built one top-level dict and
  three nested dict objects, and nothing has happened yet.\<close>

definition module_state :: pystate where
  "module_state =
     \<lparr>DEFAULT_PROMPTS = \<lparr>system_prompt = system_prompt_default, final_answer = FinalAnswerObj,
                          planning = PlanningObj, managed_agent = ManagedAgentObj\<rparr>,
      store = (\<lambda>obj. case obj of FinalAnswerObj \<Rightarrow> final_answer_default
                               | PlanningObj \<Rightarrow> planning_default
                               | ManagedAgentObj \<Rightarrow> managed_agent_default),
      trace = []\<rparr>"

text \<open>A template dict as a reader sees it: the nested objects read through the store.\<close>

definition snapshot :: "pystate \<Rightarrow> prompt_dict \<Rightarrow> pyval" where
  "snapshot s pd =
     PDict [(''system_prompt'', system_prompt pd),
            (''final_answer'', PDict (store s (final_answer pd))),
            (''planning'', PDict (store s (planning pd))),
            (''managed_agent'', PDict (store s (managed_agent pd)))]"

text \<open>The defaults are as compiled in: no earlier call has written to them.\<close>

definition pristine :: "pystate \<Rightarrow> bool" where
  "pristine s \<longleftrightarrow>
     DEFAULT_PROMPTS s = DEFAULT_PROMPTS module_state \<and> store s = store module_state"

section \<open>Statements that may raise, over the local dict and the store\<close>

text \<open>
  Inside the \<open>try\<close> block of \<open>create_agent\<close> a statement reads and writes the local
  \<open>prompt_templates\<close> and the nested dict objects, and either completes or raises.
  What it wrote before raising stays written.
\<close>

type_synonym frame = "prompt_dict \<times> (obj_id \<Rightarrow> dict_obj)"

type_synonym 'a cmd = "frame \<Rightarrow> (exn + 'a) \<times> frame"

definition returns :: "'a \<Rightarrow> 'a cmd" where
  "returns x = (\<lambda>f. (Inr x, f))"

definition eval_pure :: "exn + 'a \<Rightarrow> 'a cmd" where
  "eval_pure r = (\<lambda>f. (r, f))"

definition and_then :: "'a cmd \<Rightarrow> ('a \<Rightarrow> 'b cmd) \<Rightarrow> 'b cmd" where
  "and_then m k = (\<lambda>f. case m f of (Inl e, f') \<Rightarrow> (Inl e, f') | (Inr x, f') \<Rightarrow> k x f')"

fun for_each :: "('a \<Rightarrow> unit cmd) \<Rightarrow> 'a list \<Rightarrow> unit cmd" where
  "for_each body [] = returns ()"
| "for_each body (x # xs) = and_then (body x) (\<lambda>_. for_each body xs)"

text \<open>\<open>prompt_templates["system_prompt"] = v\<close>: a write to the local copy.\<close>

definition set_system_prompt :: "pyval \<Rightarrow> unit cmd" where
  "set_system_prompt v = (\<lambda>(pt, st). (Inr (), (pt\<lparr>system_prompt := v\<rparr>, st)))"

text \<open>\<open>prompt_templates[section][key] = v\<close>: the local copy is only read, for the
  reference it holds; the write goes to the nested object behind it.\<close>

definition set_nested :: "(prompt_dict \<Rightarrow> obj_id) \<Rightarrow> string \<Rightarrow> pyval \<Rightarrow> unit cmd" where
  "set_nested section key v =
     (\<lambda>(pt, st). (Inr (), (pt, st(section pt := dict_set (st (section pt)) key v))))"

text \<open>The keys of \<open>prompt_templates[section]\<close>, in order.\<close>

definition keys_of :: "(prompt_dict \<Rightarrow> obj_id) \<Rightarrow> string list cmd" where
  "keys_of section = (\<lambda>(pt, st). (Inr (map fst (st (section pt))), (pt, st)))"

text \<open>\<open>loaded_prompts[section_name]\<close>.\<close>

definition loaded_item :: "pyval \<Rightarrow> string \<Rightarrow> pyval cmd" where
  "loaded_item loaded_prompts section_name = eval_pure (py_getitem loaded_prompts section_name)"

text \<open>
  \<open>if key in loaded_prompts[section_name]: prompt_templates[section_name][key] = loaded_prompts[section_name][key]\<close>,
  the statement of lines 106 to 109 and the body of the loop of lines 116 to 118.
\<close>

definition copy_key :: "(prompt_dict \<Rightarrow> obj_id) \<Rightarrow> pyval \<Rightarrow> string \<Rightarrow> string \<Rightarrow> unit cmd" where
  "copy_key section loaded_prompts section_name key =
     and_then (loaded_item loaded_prompts section_name) (\<lambda>src.
     and_then (eval_pure (py_contains key src)) (\<lambda>present.
       if present then
         and_then (loaded_item loaded_prompts section_name) (\<lambda>src'.
         and_then (eval_pure (py_getitem src' key)) (\<lambda>v.
           set_nested section key v))
       else returns ()))"

definition merge_system_prompt :: "pyval \<Rightarrow> unit cmd" where
  "merge_system_prompt loaded_prompts =
     and_then (eval_pure (py_contains ''system_prompt'' loaded_prompts)) (\<lambda>present.
       if present then
         and_then (loaded_item loaded_prompts ''system_prompt'') set_system_prompt
       else returns ())"

definition merge_final_answer :: "pyval \<Rightarrow> unit cmd" where
  "merge_final_answer loaded_prompts =
     and_then (eval_pure (py_contains ''final_answer'' loaded_prompts)) (\<lambda>present.
       if present then
         and_then (loaded_item loaded_prompts ''final_answer'') (\<lambda>fa.
           if isinstance_dict fa then
             and_then (copy_key final_answer loaded_prompts ''final_answer'' ''pre_messages'') (\<lambda>_.
               copy_key final_answer loaded_prompts ''final_answer'' ''post_messages'')
           else
             and_then (loaded_item loaded_prompts ''final_answer'')
               (set_nested final_answer ''pre_messages''))
       else returns ())"

definition merge_planning :: "pyval \<Rightarrow> unit cmd" where
  "merge_planning loaded_prompts =
     and_then (eval_pure (py_contains ''planning'' loaded_prompts)) (\<lambda>present.
       if present then
         and_then (loaded_item loaded_prompts ''planning'') (\<lambda>pl.
           if isinstance_dict pl then
             and_then (keys_of planning) (for_each (copy_key planning loaded_prompts ''planning''))
           else returns ())
       else returns ())"

text \<open>The body of \<open>if loaded_prompts:\<close>, lines 99 to 118.\<close>

definition merge_prompts :: "pyval \<Rightarrow> unit cmd" where
  "merge_prompts loaded_prompts =
     and_then (merge_system_prompt loaded_prompts) (\<lambda>_.
     and_then (merge_final_answer loaded_prompts) (\<lambda>_.
       merge_planning loaded_prompts))"

section \<open>Agent assembly\<close>

text \<open>
  What the libraries answer during one run: \<open>HfApiModel()\<close>, \<open>load_tool(...)\<close> (a
  \<open>Tool\<close> instance, which is true as a condition), \<open>open\<close> with \<open>yaml.safe_load\<close>
  (\<open>Inl\<close> when either raises), the constructor \<open>CodeAgent(...)\<close>, which accepts
  its keyword arguments (\<open>None\<close>) or raises, given the arguments and the template set
  as it reads it, the two Gradio imports, the construction of the \<open>gr.Blocks\<close> page,
  and \<open>demo.launch\<close>, which returns, raises, or serves without end (\<open>None\<close>).
\<close>

record env =
  HfApiModel_result :: "exn + hf_model"
  load_tool_result :: "exn + tool"
  prompts_yaml :: "exn + pyval"
  CodeAgent_result :: "agent \<Rightarrow> pyval \<Rightarrow> exn option"
  gradio_import :: "exn + unit"
  blocks_result :: "exn + unit"
  launch_result :: "(exn + unit) option"

text \<open>Lines 93 to 123: the copy of the defaults and the merge of \<open>prompts.yaml\<close>.\<close>

definition using_defaults :: "exn \<Rightarrow> pystate \<Rightarrow> pystate" where
  "using_defaults e s =
     emit (Log INFO ''Using default templates'')
       (emit (Log ERROR (''Error loading prompts.yaml: '' @ str_of e)) s)"

definition load_prompt_templates :: "env \<Rightarrow> pystate \<Rightarrow> prompt_dict \<times> pystate" where
  "load_prompt_templates ev s =
     (let prompt_templates = DEFAULT_PROMPTS s;
          s1 = emit (Called (Open_file ''prompts.yaml'')) s
      in case prompts_yaml ev of
           Inl e \<Rightarrow> (prompt_templates, using_defaults e s1)
         | Inr loaded_prompts \<Rightarrow>
             if py_truthy loaded_prompts then
               (case merge_prompts loaded_prompts (prompt_templates, store s1) of
                  (Inl e, (pt, st)) \<Rightarrow> (pt, using_defaults e (s1\<lparr>store := st\<rparr>))
                | (Inr u, (pt, st)) \<Rightarrow>
                    (pt, emit (Log INFO ''Successfully merged prompt templates'') (s1\<lparr>store := st\<rparr>)))
             else (prompt_templates, s1))"

definition local_tools :: "tool list" where
  "local_tools = [My_custom_tool, Get_current_time_in_timezone, FinalAnswerTool, VisitWebpageTool]"

definition load_image_tool :: "env \<Rightarrow> pystate \<Rightarrow> tool option \<times> pystate" where
  "load_image_tool ev s =
     (let s1 = emit (Called (Call_load_tool ''agents-course/text-to-image'')) s
      in case load_tool_result ev of
           Inl e \<Rightarrow> (None, emit (Log ERROR (''Error loading image generation tool: '' @ str_of e)) s1)
         | Inr t \<Rightarrow> (Some t, emit (Log INFO ''Successfully loaded image generation tool'') s1))"

definition create_agent :: "env \<Rightarrow> pystate \<Rightarrow> (exn + agent) \<times> pystate" where
  "create_agent ev s =
     (let s1 = emit (Called New_FinalAnswerTool) s;
          s2 = emit (Called New_VisitWebpageTool) s1;
          s3 = emit (Called New_HfApiModel) s2
      in case HfApiModel_result ev of
           Inl e \<Rightarrow>
             (Inl (Exn ''RuntimeError'' False (''Failed to initialize model: '' @ str_of e)),
              emit (Log ERROR (''Error loading model: '' @ str_of e)) s3)
         | Inr m \<Rightarrow>
             (let s4 = emit (Log INFO ''Successfully loaded model'') s3;
                  (image_generation_tool, s5) = load_image_tool ev s4;
                  (pt, s6) = load_prompt_templates ev s5;
                  tls = local_tools @ (case image_generation_tool of None \<Rightarrow> [] | Some t \<Rightarrow> [t]);
                  kwargs = \<lparr>model = m, tools = tls, max_steps = 6, verbosity_level = 1,
                            grammar = None, planning_interval = None, name = ''Agent'',
                            description = ''A CodeAgent with improved capabilities'',
                            prompt_templates = pt\<rparr>;
                  s7 = emit (Called (New_CodeAgent kwargs)) s6
              in case CodeAgent_result ev kwargs (snapshot s6 pt) of
                   None \<Rightarrow> (Inr kwargs, s7)
                 | Some e \<Rightarrow> (Inl e, s7)))"

section \<open>The application\<close>

text \<open>The submit handler; \<open>agent_call\<close> is \<open>agent(task)\<close>, the call interface of the
  framework, which answers with text or raises and may leave records of its own.\<close>

definition process_request ::
  "(string \<Rightarrow> pystate \<Rightarrow> (exn + string) \<times> pystate) \<Rightarrow> string \<Rightarrow> pystate
     \<Rightarrow> (exn + string) \<times> pystate" where
  "process_request agent_call task s =
     (case agent_call task (emit (Called (Call_agent task)) s) of
        (Inr result, s') \<Rightarrow> (Inr result, s')
      | (Inl e, s') \<Rightarrow>
          (Inr (''Error processing your request: '' @ str_of e),
           emit (Log ERROR (''Error in agent processing: '' @ str_of e)) s'))"

definition critical_error :: "exn \<Rightarrow> pystate \<Rightarrow> (exn + unit) \<times> pystate" where
  "critical_error e s =
     (Inr (),
      emit (Print (''Critical error: '' @ str_of e))
        (emit (Log ERROR (''Failed to start application: '' @ str_of e)) s))"

text \<open>\<open>run_app\<close>; \<open>None\<close> when \<open>demo.launch\<close> keeps serving and the call never returns.\<close>

definition run_app :: "env \<Rightarrow> pystate \<Rightarrow> ((exn + unit) \<times> pystate) option" where
  "run_app ev s =
     (let s1 = emit (Called Import_gradio) s
      in case gradio_import ev of
           Inl e \<Rightarrow>
             if is_ImportError e
             then Some (Inl e, emit (Log ERROR (''Error importing Gradio: '' @ str_of e)) s1)
             else Some (Inl e, s1)
         | Inr u \<Rightarrow>
             (case create_agent ev s1 of
                (Inl e, s2) \<Rightarrow> Some (critical_error e s2)
              | (Inr agent, s2) \<Rightarrow>
                  (let s3 = emit (Called Build_blocks) s2
                   in case blocks_result ev of
                        Inl e \<Rightarrow> Some (critical_error e s3)
                      | Inr u' \<Rightarrow>
                          (let s4 = emit (Called Launch_demo) s3
                           in case launch_result ev of
                                None \<Rightarrow> None
                              | Some (Inl e) \<Rightarrow> Some (critical_error e s4)
                              | Some (Inr u'') \<Rightarrow> Some (Inr (), s4)))))"

section \<open>What a run leaves alone\<close>

text \<open>The three references of a top-level dict; no statement of the merge changes them.\<close>

definition refs_kept :: "prompt_dict \<Rightarrow> prompt_dict \<Rightarrow> bool" where
  "refs_kept pt pt' \<longleftrightarrow>
     final_answer pt' = final_answer pt \<and> planning pt' = planning pt \<and>
     managed_agent pt' = managed_agent pt"

definition writes_within :: "(prompt_dict \<Rightarrow> obj_id set) \<Rightarrow> 'a cmd \<Rightarrow> bool" where
  "writes_within W c \<longleftrightarrow>
     (\<forall>pt st. refs_kept pt (fst (snd (c (pt, st)))) \<and>
        (\<forall>obj. obj \<notin> W pt \<longrightarrow> snd (snd (c (pt, st))) obj = st obj))"

definition by_refs :: "(prompt_dict \<Rightarrow> obj_id set) \<Rightarrow> bool" where
  "by_refs W \<longleftrightarrow> (\<forall>pt pt'. refs_kept pt pt' \<longrightarrow> W pt' = W pt)"

text \<open>
  The template set that a call of \<open>create_agent\<close> has handed to \<open>CodeAgent\<close>: the
  \<open>prompt_templates\<close> argument of the constructor call that ends its trace, read
  through the store; \<open>None\<close> when the call ended before the constructor.
\<close>

definition templates_of :: "(exn + agent) \<times> pystate \<Rightarrow> pyval option" where
  "templates_of outcome =
     (case rev (trace (snd outcome)) of
        Called (New_CodeAgent kwargs) # earlier \<Rightarrow>
          Some (snapshot (snd outcome) (prompt_templates kwargs))
      | other \<Rightarrow> None)"

text \<open>The state in which line 94 is reached when the model has loaded.\<close>

definition state_before_prompts :: "env \<Rightarrow> pystate \<Rightarrow> pystate" where
  "state_before_prompts ev s =
     snd (load_image_tool ev
       (emit (Log INFO ''Successfully loaded model'')
         (emit (Called New_HfApiModel)
           (emit (Called New_VisitWebpageTool)
             (emit (Called New_FinalAnswerTool) s)))))"

section \<open>Example runs\<close>

definition unknown_zone_clock :: clock_env where
  "unknown_zone_clock =
     \<lparr>pytz_timezone = (\<lambda>z. Inl (Exn ''UnknownTimeZoneError'' False ([CHR 0x27] @ z @ [CHR 0x27]))),
      now_strftime = (\<lambda>tz fmt. Inr ''2026-01-01 00:00:00''),
      repr_str = (\<lambda>z. [CHR 0x27] @ z @ [CHR 0x27])\<rparr>"

definition FileNotFoundError :: exn where
  "FileNotFoundError =
     Exn ''FileNotFoundError'' False
       (''[Errno 2] No such file or directory: '' @ [CHR 0x27] @ ''prompts.yaml'' @ [CHR 0x27])"

definition ConnectionError :: exn where
  "ConnectionError = Exn ''ConnectionError'' False ''network unreachable''"

text \<open>A run in which every library call succeeds and \<open>prompts.yaml\<close> holds \<open>doc\<close>.\<close>

definition env_with :: "exn + pyval \<Rightarrow> env" where
  "env_with doc =
     \<lparr>HfApiModel_result = Inr HfApiModel,
      load_tool_result = Inr (Hub_tool ''agents-course/text-to-image''),
      prompts_yaml = doc,
      CodeAgent_result = (\<lambda>kwargs templates. None),
      gradio_import = Inr (),
      blocks_result = Inr (),
      launch_result = Some (Inr ())\<rparr>"

text \<open>Documents and failing libraries used in the example runs below.\<close>

definition final_answer_X_doc :: pyval where
  "final_answer_X_doc = PDict [(''final_answer'', PStr ''X'')]"

definition post_messages_P_doc :: pyval where
  "post_messages_P_doc = PDict [(''final_answer'', PDict [(''post_messages'', PStr ''P'')])]"

definition initial_plan_doc :: pyval where
  "initial_plan_doc =
     PDict [(''planning'', PDict [(''initial_plan'', PStr ''Plan in three steps.''),
                                   (''tone'', PStr ''brisk'')])]"

definition managed_agent_doc :: pyval where
  "managed_agent_doc =
     PDict [(''managed_agent'', PDict [(''task'', PStr ''T''), (''report'', PStr ''R'')])]"

definition model_down :: env where
  "model_down = (env_with (Inl FileNotFoundError))\<lparr>HfApiModel_result := Inl ConnectionError\<rparr>"

definition hub_down :: env where
  "hub_down = (env_with (Inl FileNotFoundError))\<lparr>load_tool_result := Inl ConnectionError\<rparr>"

definition gradio_missing :: env where
  "gradio_missing =
     (env_with (Inl FileNotFoundError))
       \<lparr>gradio_import := Inl (Exn ''ModuleNotFoundError'' True
                                (''No module named '' @ [CHR 0x27] @ ''gradio'' @ [CHR 0x27]))\<rparr>"

definition failing_agent :: "string \<Rightarrow> pystate \<Rightarrow> (exn + string) \<times> pystate" where
  "failing_agent task s = (Inl (Exn ''AgentGenerationError'' False ''model endpoint timed out''), s)"

section \<open>Properties\<close>

subsection \<open>Auxiliary facts\<close>

lemma starts_with_append: "starts_with xs (xs @ ys)"
  by (induction xs) simp_all

lemma str_contains_prefix: "str_contains xs (xs @ ys)"
proof (cases "xs @ ys")
  case Nil
  then show ?thesis by simp
next
  case (Cons a list)
  have "starts_with xs (xs @ ys)" by (rule starts_with_append)
  with Cons show ?thesis by simp
qed

lemma writes_within_returns: "writes_within W (returns x)"
  by (simp add: writes_within_def returns_def refs_kept_def)

lemma writes_within_eval_pure: "writes_within W (eval_pure r)"
  by (simp add: writes_within_def eval_pure_def refs_kept_def)

lemma writes_within_loaded_item: "writes_within W (loaded_item lp k)"
  by (simp add: loaded_item_def writes_within_eval_pure)

lemma writes_within_keys_of: "writes_within W (keys_of sec)"
  by (simp add: writes_within_def keys_of_def refs_kept_def)

lemma writes_within_set_system_prompt: "writes_within W (set_system_prompt v)"
  by (simp add: writes_within_def set_system_prompt_def refs_kept_def)

lemma writes_within_set_nested:
  "(\<And>pt. sec pt \<in> W pt) \<Longrightarrow> writes_within W (set_nested sec k v)"
  by (auto simp add: writes_within_def set_nested_def refs_kept_def)

lemma writes_within_and_then:
  assumes W: "by_refs W" and m: "writes_within W m" and k: "\<And>x. writes_within W (k x)"
  shows "writes_within W (and_then m k)"
  unfolding writes_within_def
proof (intro allI)
  fix pt st
  obtain r pt1 st1 where run: "m (pt, st) = (r, (pt1, st1))"
    by (metis prod.collapse)
  from m have "refs_kept pt (fst (snd (m (pt, st)))) \<and>
        (\<forall>obj. obj \<notin> W pt \<longrightarrow> snd (snd (m (pt, st))) obj = st obj)"
    unfolding writes_within_def by blast
  with run have kept1: "refs_kept pt pt1"
    and same1: "\<forall>obj. obj \<notin> W pt \<longrightarrow> st1 obj = st obj"
    by simp_all
  show "refs_kept pt (fst (snd (and_then m k (pt, st)))) \<and>
        (\<forall>obj. obj \<notin> W pt \<longrightarrow> snd (snd (and_then m k (pt, st))) obj = st obj)"
  proof (cases r)
    case (Inl e)
    with run kept1 same1 show ?thesis by (simp add: and_then_def)
  next
    case (Inr x)
    have eq: "and_then m k (pt, st) = k x (pt1, st1)"
      using run Inr by (simp add: and_then_def)
    from k [of x] have kept2: "refs_kept pt1 (fst (snd (k x (pt1, st1))))"
      and same2: "\<forall>obj. obj \<notin> W pt1 \<longrightarrow> snd (snd (k x (pt1, st1))) obj = st1 obj"
      unfolding writes_within_def by blast+
    from W kept1 have W_eq: "W pt1 = W pt"
      by (simp add: by_refs_def)
    from kept1 kept2 have "refs_kept pt (fst (snd (k x (pt1, st1))))"
      by (simp add: refs_kept_def)
    moreover from same1 same2 W_eq
    have "\<forall>obj. obj \<notin> W pt \<longrightarrow> snd (snd (k x (pt1, st1))) obj = st obj"
      by simp
    ultimately show ?thesis by (simp add: eq)
  qed
qed

lemma writes_within_for_each:
  assumes W: "by_refs W" and body: "\<And>x. writes_within W (body x)"
  shows "writes_within W (for_each body xs)"
  by (induction xs) (simp_all add: writes_within_returns writes_within_and_then W body)

lemma writes_within_copy_key:
  assumes W: "by_refs W" and sec: "\<And>pt. sec pt \<in> W pt"
  shows "writes_within W (copy_key sec lp nm k)"
  unfolding copy_key_def
  by (intro writes_within_and_then W writes_within_loaded_item writes_within_eval_pure)
     (simp add: writes_within_returns writes_within_and_then W writes_within_loaded_item
        writes_within_eval_pure writes_within_set_nested sec)

lemma writes_within_merge_system_prompt: "by_refs W \<Longrightarrow> writes_within W (merge_system_prompt lp)"
  unfolding merge_system_prompt_def
  by (intro writes_within_and_then writes_within_eval_pure)
     (simp_all add: writes_within_returns writes_within_and_then writes_within_loaded_item
        writes_within_set_system_prompt)

lemma writes_within_merge_final_answer:
  assumes W: "by_refs W" and sec: "\<And>pt. final_answer pt \<in> W pt"
  shows "writes_within W (merge_final_answer lp)"
  unfolding merge_final_answer_def
  by (intro writes_within_and_then W writes_within_eval_pure)
     (simp add: writes_within_returns writes_within_and_then W writes_within_loaded_item
        writes_within_copy_key writes_within_set_nested sec)

lemma writes_within_merge_planning:
  assumes W: "by_refs W" and sec: "\<And>pt. planning pt \<in> W pt"
  shows "writes_within W (merge_planning lp)"
  unfolding merge_planning_def
  by (intro writes_within_and_then W writes_within_eval_pure)
     (simp add: writes_within_returns writes_within_and_then W writes_within_loaded_item
        writes_within_copy_key writes_within_keys_of writes_within_for_each sec)

lemma by_refs_sections: "by_refs (\<lambda>pt. {final_answer pt, planning pt})"
  by (simp add: by_refs_def refs_kept_def)

lemma by_refs_planning: "by_refs (\<lambda>pt. {planning pt})"
  by (simp add: by_refs_def refs_kept_def)

lemma writes_within_merge_prompts:
  "writes_within (\<lambda>pt. {final_answer pt, planning pt}) (merge_prompts lp)"
  unfolding merge_prompts_def
  by (intro writes_within_and_then by_refs_sections writes_within_merge_system_prompt
        writes_within_merge_final_answer writes_within_merge_planning) simp_all

lemma merge_prompts_not_a_mapping:
  "\<not> isinstance_dict lp \<Longrightarrow> snd (merge_prompts lp f) = f"
  by (cases lp)
     (simp_all add: merge_prompts_def merge_system_prompt_def merge_final_answer_def
        merge_planning_def and_then_def eval_pure_def returns_def loaded_item_def)

lemma merge_system_prompt_mapping:
  "merge_system_prompt (PDict kvs) (pt, st) =
     (Inr (), (pt\<lparr>system_prompt := (case map_of kvs ''system_prompt'' of
                                        None \<Rightarrow> system_prompt pt | Some v \<Rightarrow> v)\<rparr>, st))"
  by (cases "map_of kvs ''system_prompt''")
     (simp_all add: merge_system_prompt_def and_then_def eval_pure_def returns_def
        loaded_item_def set_system_prompt_def)

lemma merge_final_answer_absent:
  "map_of kvs ''final_answer'' = None \<Longrightarrow> merge_final_answer (PDict kvs) f = (Inr (), f)"
  by (simp add: merge_final_answer_def and_then_def eval_pure_def returns_def)

lemma merge_final_answer_plain:
  "map_of kvs ''final_answer'' = Some x \<Longrightarrow> \<not> isinstance_dict x \<Longrightarrow>
   merge_final_answer (PDict kvs) (pt, st) =
     (Inr (), (pt, st(final_answer pt := dict_set (st (final_answer pt)) ''pre_messages'' x)))"
  by (simp add: merge_final_answer_def and_then_def eval_pure_def returns_def
        loaded_item_def set_nested_def)

lemma merge_planning_absent:
  "map_of kvs ''planning'' = None \<Longrightarrow> merge_planning (PDict kvs) f = (Inr (), f)"
  by (simp add: merge_planning_def and_then_def eval_pure_def returns_def)

lemma merge_planning_keeps_others:
  "obj \<noteq> planning pt \<Longrightarrow> snd (snd (merge_planning lp (pt, st))) obj = st obj"
  using writes_within_merge_planning [OF by_refs_planning, of lp]
  by (simp add: writes_within_def)

lemma merge_planning_keeps_refs:
  "refs_kept pt (fst (snd (merge_planning lp (pt, st))))"
  using writes_within_merge_planning [OF by_refs_planning, of lp]
  by (simp add: writes_within_def)

lemma merge_planning_initial_plan_only:
  assumes "map_of kvs ''planning'' = Some (PDict pl)"
    and "map_of pl ''initial_plan'' = Some v"
    and "map_of pl ''initial_facts'' = None"
    and "map_of pl ''update_facts_pre_messages'' = None"
    and "map_of pl ''update_facts_post_messages'' = None"
    and "map_of pl ''update_plan_pre_messages'' = None"
    and "map_of pl ''update_plan_post_messages'' = None"
    and "st (planning pt) = planning_default"
  shows "merge_planning (PDict kvs) (pt, st) =
           (Inr (), (pt, st(planning pt := dict_set planning_default ''initial_plan'' v)))"
  using assms
  by (simp add: merge_planning_def and_then_def eval_pure_def returns_def loaded_item_def
        keys_of_def copy_key_def set_nested_def planning_default_def)

lemma merge_prompts_final_answer_plain:
  assumes "map_of kvs ''final_answer'' = Some x" and "\<not> isinstance_dict x"
    and "final_answer pt \<noteq> planning pt"
  shows "\<exists>r pt' st'. merge_prompts (PDict kvs) (pt, st) = (r, (pt', st')) \<and>
           final_answer pt' = final_answer pt \<and>
           st' (final_answer pt) = dict_set (st (final_answer pt)) ''pre_messages'' x"
proof -
  let ?pt1 = "pt\<lparr>system_prompt := (case map_of kvs ''system_prompt'' of
                                        None \<Rightarrow> system_prompt pt | Some v \<Rightarrow> v)\<rparr>"
  let ?st2 = "st(final_answer pt := dict_set (st (final_answer pt)) ''pre_messages'' x)"
  have eq: "merge_prompts (PDict kvs) (pt, st) = merge_planning (PDict kvs) (?pt1, ?st2)"
    using merge_final_answer_plain [OF assms(1,2), of ?pt1 st]
    by (simp add: merge_prompts_def and_then_def merge_system_prompt_mapping)
  obtain r pt' st' where run: "merge_planning (PDict kvs) (?pt1, ?st2) = (r, (pt', st'))"
    by (metis prod.collapse)
  from merge_planning_keeps_others [of "final_answer pt" ?pt1 "PDict kvs" ?st2] assms(3) run
  have "st' (final_answer pt) = dict_set (st (final_answer pt)) ''pre_messages'' x"
    by simp
  moreover from merge_planning_keeps_refs [of ?pt1 "PDict kvs" ?st2] run
  have "final_answer pt' = final_answer pt"
    by (simp add: refs_kept_def)
  ultimately show ?thesis using eq run by simp
qed

lemma snapshot_module_state: "snapshot module_state (DEFAULT_PROMPTS module_state) = DEFAULT_PROMPTS_literal"
  by (simp add: snapshot_def module_state_def DEFAULT_PROMPTS_literal_def)

lemma snapshot_pristine: "pristine s \<Longrightarrow> snapshot s (DEFAULT_PROMPTS s) = DEFAULT_PROMPTS_literal"
  using snapshot_module_state by (simp add: snapshot_def pristine_def)

lemma load_prompt_templates_no_document:
  assumes "(\<exists>e. prompts_yaml ev = Inl e) \<or>
           (\<exists>v. prompts_yaml ev = Inr v \<and> (\<not> py_truthy v \<or> \<not> isinstance_dict v))"
  shows "fst (load_prompt_templates ev s) = DEFAULT_PROMPTS s \<and>
         store (snd (load_prompt_templates ev s)) = store s \<and>
         DEFAULT_PROMPTS (snd (load_prompt_templates ev s)) = DEFAULT_PROMPTS s"
proof (cases "prompts_yaml ev")
  case (Inl e)
  then show ?thesis
    by (simp add: load_prompt_templates_def using_defaults_def emit_def Let_def)
next
  case (Inr v)
  with assms have v: "\<not> py_truthy v \<or> \<not> isinstance_dict v" by simp
  show ?thesis
  proof (cases "py_truthy v")
    case False
    with Inr show ?thesis
      by (simp add: load_prompt_templates_def emit_def Let_def)
  next
    case True
    with v have "\<not> isinstance_dict v" by simp
    then have "snd (merge_prompts v (DEFAULT_PROMPTS s, store s)) = (DEFAULT_PROMPTS s, store s)"
      by (rule merge_prompts_not_a_mapping)
    with Inr True show ?thesis
      by (cases "merge_prompts v (DEFAULT_PROMPTS s, store s)")
         (auto simp add: load_prompt_templates_def using_defaults_def emit_def Let_def
            split: sum.splits)
  qed
qed

lemma load_prompt_templates_frame:
  "refs_kept (DEFAULT_PROMPTS s) (fst (load_prompt_templates ev s)) \<and>
   (obj \<noteq> final_answer (DEFAULT_PROMPTS s) \<and> obj \<noteq> planning (DEFAULT_PROMPTS s) \<longrightarrow>
      store (snd (load_prompt_templates ev s)) obj = store s obj) \<and>
   DEFAULT_PROMPTS (snd (load_prompt_templates ev s)) = DEFAULT_PROMPTS s"
proof (cases "prompts_yaml ev")
  case (Inl e)
  then show ?thesis
    by (simp add: load_prompt_templates_def using_defaults_def emit_def Let_def refs_kept_def)
next
  case (Inr lp)
  show ?thesis
  proof (cases "py_truthy lp")
    case False
    with Inr show ?thesis
      by (simp add: load_prompt_templates_def emit_def Let_def refs_kept_def)
  next
    case True
    obtain r pt st where run: "merge_prompts lp (DEFAULT_PROMPTS s, store s) = (r, (pt, st))"
      by (metis prod.collapse)
    from writes_within_merge_prompts [of lp] run
    have "refs_kept (DEFAULT_PROMPTS s) pt"
      and "obj \<noteq> final_answer (DEFAULT_PROMPTS s) \<and> obj \<noteq> planning (DEFAULT_PROMPTS s)
             \<longrightarrow> st obj = store s obj"
      unfolding writes_within_def by (metis fst_conv snd_conv insert_iff empty_iff)+
    with Inr True run show ?thesis
      by (cases r) (simp_all add: load_prompt_templates_def using_defaults_def emit_def Let_def)
  qed
qed

lemma load_prompt_templates_mapping:
  assumes "prompts_yaml ev = Inr lp" and "py_truthy lp"
  shows "fst (load_prompt_templates ev s) = fst (snd (merge_prompts lp (DEFAULT_PROMPTS s, store s)))"
    and "store (snd (load_prompt_templates ev s)) = snd (snd (merge_prompts lp (DEFAULT_PROMPTS s, store s)))"
  using assms
  by (cases "merge_prompts lp (DEFAULT_PROMPTS s, store s)";
      cases "fst (merge_prompts lp (DEFAULT_PROMPTS s, store s))";
      simp add: load_prompt_templates_def using_defaults_def emit_def Let_def)+

lemma state_before_prompts_defaults:
  "store (state_before_prompts ev s) = store s"
  "DEFAULT_PROMPTS (state_before_prompts ev s) = DEFAULT_PROMPTS s"
  by (simp_all add: state_before_prompts_def load_image_tool_def emit_def Let_def split: sum.splits)

lemma templates_of_constructor_call:
  "templates_of (r, emit (Called (New_CodeAgent kwargs)) s) = Some (snapshot s (prompt_templates kwargs))"
  by (simp add: templates_of_def emit_def snapshot_def)

lemma create_agent_reaches_constructor:
  assumes "HfApiModel_result ev = Inr m"
  shows "\<exists>kwargs.
     snd (create_agent ev s) =
       emit (Called (New_CodeAgent kwargs))
         (snd (load_prompt_templates ev (state_before_prompts ev s))) \<and>
     prompt_templates kwargs = fst (load_prompt_templates ev (state_before_prompts ev s)) \<and>
     tools kwargs = local_tools @ (case load_tool_result ev of Inl e \<Rightarrow> [] | Inr t \<Rightarrow> [t]) \<and>
     fst (create_agent ev s) =
       (case CodeAgent_result ev kwargs
               (snapshot (snd (load_prompt_templates ev (state_before_prompts ev s)))
                         (prompt_templates kwargs)) of
          None \<Rightarrow> Inr kwargs | Some e \<Rightarrow> Inl e)"
proof -
  let ?l = "load_prompt_templates ev (state_before_prompts ev s)"
  let ?k = "\<lparr>model = m,
             tools = local_tools @ (case load_tool_result ev of Inl e \<Rightarrow> [] | Inr t \<Rightarrow> [t]),
             max_steps = 6, verbosity_level = 1, grammar = None, planning_interval = None,
             name = ''Agent'', description = ''A CodeAgent with improved capabilities'',
             prompt_templates = fst ?l\<rparr>"
  have "create_agent ev s =
          ((case CodeAgent_result ev ?k (snapshot (snd ?l) (fst ?l)) of
              None \<Rightarrow> Inr ?k | Some e \<Rightarrow> Inl e),
           emit (Called (New_CodeAgent ?k)) (snd ?l))"
    using assms
    by (cases "load_tool_result ev")
       (simp_all add: create_agent_def state_before_prompts_def load_image_tool_def Let_def
          split: prod.splits option.splits)
  then show ?thesis
    by (intro exI [of _ ?k]) simp
qed

lemma create_agent_constructor_raises:
  assumes "HfApiModel_result ev = Inr m"
    and "\<And>kwargs templates. CodeAgent_result ev kwargs templates = Some e"
  shows "fst (create_agent ev s) = Inl e"
  using create_agent_reaches_constructor [OF assms(1), of s] assms(2)
  by auto

lemma create_agent_hands_over:
  assumes "HfApiModel_result ev = Inr m"
  shows "templates_of (create_agent ev s) =
           Some (snapshot (snd (load_prompt_templates ev (state_before_prompts ev s)))
                          (fst (load_prompt_templates ev (state_before_prompts ev s))))"
    and "store (snd (create_agent ev s)) =
           store (snd (load_prompt_templates ev (state_before_prompts ev s)))"
    and "DEFAULT_PROMPTS (snd (create_agent ev s)) =
           DEFAULT_PROMPTS (snd (load_prompt_templates ev (state_before_prompts ev s)))"
proof -
  let ?l = "load_prompt_templates ev (state_before_prompts ev s)"
  from create_agent_reaches_constructor [OF assms, of s]
  obtain kwargs where st: "snd (create_agent ev s) = emit (Called (New_CodeAgent kwargs)) (snd ?l)"
    and pt: "prompt_templates kwargs = fst ?l"
    by blast
  have "templates_of (create_agent ev s) = templates_of (fst (create_agent ev s), snd (create_agent ev s))"
    by simp
  also have "\<dots> = Some (snapshot (snd ?l) (fst ?l))"
    unfolding st by (simp add: templates_of_constructor_call pt)
  finally show "templates_of (create_agent ev s) = Some (snapshot (snd ?l) (fst ?l))" .
  show "store (snd (create_agent ev s)) = store (snd ?l)"
    "DEFAULT_PROMPTS (snd (create_agent ev s)) = DEFAULT_PROMPTS (snd ?l)"
    unfolding st by (simp_all add: emit_def)
qed

lemma create_agent_keeps_top_level:
  "DEFAULT_PROMPTS (snd (create_agent ev s)) = DEFAULT_PROMPTS s"
proof (cases "HfApiModel_result ev")
  case (Inl e)
  then show ?thesis by (simp add: create_agent_def emit_def Let_def)
next
  case (Inr m)
  from create_agent_hands_over(3) [OF Inr, of s]
    load_prompt_templates_frame [of "state_before_prompts ev s" ev]
    state_before_prompts_defaults(2) [of ev s]
  show ?thesis by simp
qed

lemma create_agent_without_document:
  assumes "HfApiModel_result ev = Inr m"
    and "(\<exists>e. prompts_yaml ev = Inl e) \<or>
         (\<exists>v. prompts_yaml ev = Inr v \<and> (\<not> py_truthy v \<or> \<not> isinstance_dict v))"
  shows "templates_of (create_agent ev s) = Some (snapshot s (DEFAULT_PROMPTS s))"
    and "store (snd (create_agent ev s)) = store s"
    and "DEFAULT_PROMPTS (snd (create_agent ev s)) = DEFAULT_PROMPTS s"
proof -
  let ?s5 = "state_before_prompts ev s"
  have s5: "store ?s5 = store s" "DEFAULT_PROMPTS ?s5 = DEFAULT_PROMPTS s"
    by (rule state_before_prompts_defaults)+
  from load_prompt_templates_no_document [OF assms(2), of ?s5] s5
  have l: "fst (load_prompt_templates ev ?s5) = DEFAULT_PROMPTS s"
    "store (snd (load_prompt_templates ev ?s5)) = store s"
    by simp_all
  show "templates_of (create_agent ev s) = Some (snapshot s (DEFAULT_PROMPTS s))"
    using create_agent_hands_over(1) [OF assms(1), of s] l by (simp add: snapshot_def)
  show "store (snd (create_agent ev s)) = store s"
    using create_agent_hands_over(2) [OF assms(1), of s] l by simp
  show "DEFAULT_PROMPTS (snd (create_agent ev s)) = DEFAULT_PROMPTS s"
    by (rule create_agent_keeps_top_level)
qed

lemma create_agent_merged:
  assumes "HfApiModel_result ev = Inr m" and "prompts_yaml ev = Inr lp" and "py_truthy lp"
    and "merge_prompts lp (DEFAULT_PROMPTS s, store s) = (r, (pt, st))"
  shows "templates_of (create_agent ev s) = Some (snapshot (s\<lparr>store := st\<rparr>) pt)"
    and "store (snd (create_agent ev s)) = st"
proof -
  let ?s5 = "state_before_prompts ev s"
  have s5: "store ?s5 = store s" "DEFAULT_PROMPTS ?s5 = DEFAULT_PROMPTS s"
    by (rule state_before_prompts_defaults)+
  from load_prompt_templates_mapping [OF assms(2,3), of ?s5] s5 assms(4)
  have l: "fst (load_prompt_templates ev ?s5) = pt"
    "store (snd (load_prompt_templates ev ?s5)) = st"
    by simp_all
  show "templates_of (create_agent ev s) = Some (snapshot (s\<lparr>store := st\<rparr>) pt)"
    using create_agent_hands_over(1) [OF assms(1), of s] l by (simp add: snapshot_def)
  show "store (snd (create_agent ev s)) = st"
    using create_agent_hands_over(2) [OF assms(1), of s] l by simp
qed

text \<open>The effect of the three example documents on any local dict and store.\<close>

lemma merge_final_answer_X_doc:
  "merge_prompts final_answer_X_doc (pt, st) =
     (Inr (), (pt, st(final_answer pt := dict_set (st (final_answer pt)) ''pre_messages'' (PStr ''X''))))"
  by (simp add: final_answer_X_doc_def merge_prompts_def merge_system_prompt_def
        merge_final_answer_def merge_planning_def and_then_def eval_pure_def returns_def
        loaded_item_def set_nested_def)

lemma merge_post_messages_P_doc:
  "merge_prompts post_messages_P_doc (pt, st) =
     (Inr (), (pt, st(final_answer pt := dict_set (st (final_answer pt)) ''post_messages'' (PStr ''P''))))"
  by (simp add: post_messages_P_doc_def merge_prompts_def merge_system_prompt_def
        merge_final_answer_def merge_planning_def copy_key_def and_then_def eval_pure_def
        returns_def loaded_item_def set_nested_def)

lemma merge_initial_plan_doc:
  assumes "st (planning pt) = planning_default"
  shows "merge_prompts initial_plan_doc (pt, st) =
     (Inr (), (pt, st(planning pt := dict_set planning_default ''initial_plan''
                                       (PStr ''Plan in three steps.''))))"
proof -
  let ?pl = "[(''initial_plan'', PStr ''Plan in three steps.''), (''tone'', PStr ''brisk'')]"
  let ?kvs = "[(''planning'', PDict ?pl)]"
  have k: "map_of ?kvs ''planning'' = Some (PDict ?pl)"
    and v: "map_of ?pl ''initial_plan'' = Some (PStr ''Plan in three steps.'')"
    and n1: "map_of ?pl ''initial_facts'' = None"
    and n2: "map_of ?pl ''update_facts_pre_messages'' = None"
    and n3: "map_of ?pl ''update_facts_post_messages'' = None"
    and n4: "map_of ?pl ''update_plan_pre_messages'' = None"
    and n5: "map_of ?pl ''update_plan_post_messages'' = None"
    by simp_all
  have "merge_prompts (PDict ?kvs) (pt, st) = merge_planning (PDict ?kvs) (pt, st)"
    by (simp add: merge_prompts_def merge_system_prompt_def merge_final_answer_def
          and_then_def eval_pure_def returns_def)
  also have "\<dots> = (Inr (), (pt, st(planning pt := dict_set planning_default ''initial_plan''
                                                   (PStr ''Plan in three steps.''))))"
    by (rule merge_planning_initial_plan_only) (rule k v n1 n2 n3 n4 n5 assms)+
  finally show ?thesis by (simp add: initial_plan_doc_def)
qed

lemma env_with_document:
  "HfApiModel_result (env_with doc) = Inr HfApiModel"
  "prompts_yaml (env_with doc) = doc"
  by (simp_all add: env_with_def)

lemma module_state_objects:
  "final_answer (DEFAULT_PROMPTS module_state) = FinalAnswerObj"
  "planning (DEFAULT_PROMPTS module_state) = PlanningObj"
  "managed_agent (DEFAULT_PROMPTS module_state) = ManagedAgentObj"
  "system_prompt (DEFAULT_PROMPTS module_state) = system_prompt_default"
  "store module_state FinalAnswerObj = final_answer_default"
  "store module_state PlanningObj = planning_default"
  "store module_state ManagedAgentObj = managed_agent_default"
  by (simp_all add: module_state_def)

text \<open>What the merge does on defaults that are as compiled in.\<close>

lemma final_answer_plain_on_compiled_defaults:
  assumes "HfApiModel_result ev = Inr m"
    and "prompts_yaml ev = Inr (PDict kvs)"
    and "map_of kvs ''final_answer'' = Some x"
    and "\<not> isinstance_dict x"
    and "pristine s"
  shows "\<exists>t fa. templates_of (create_agent ev s) = Some t \<and>
           py_getitem t ''final_answer'' = Inr fa \<and>
           py_getitem fa ''pre_messages'' = Inr x \<and>
           py_getitem fa ''post_messages'' = Inr (PStr ''Hope this helps!'') \<and>
           py_getitem fa ''post_messages'' = py_getitem (PDict final_answer_default) ''post_messages''"
proof -
  from assms(5) have refs: "final_answer (DEFAULT_PROMPTS s) = FinalAnswerObj"
    "planning (DEFAULT_PROMPTS s) = PlanningObj"
    and fa: "store s FinalAnswerObj = final_answer_default"
    by (simp_all add: pristine_def module_state_def)
  from assms(3) have truthy: "py_truthy (PDict kvs)" by auto
  from merge_prompts_final_answer_plain [OF assms(3,4), of "DEFAULT_PROMPTS s" "store s"] refs
  obtain r pt' st' where run: "merge_prompts (PDict kvs) (DEFAULT_PROMPTS s, store s) = (r, (pt', st'))"
    and pt': "final_answer pt' = FinalAnswerObj"
    and st': "st' FinalAnswerObj = dict_set (store s FinalAnswerObj) ''pre_messages'' x"
    by auto
  from create_agent_merged(1) [OF assms(1,2) truthy run]
  have "templates_of (create_agent ev s) = Some (snapshot (s\<lparr>store := st'\<rparr>) pt')" .
  then show ?thesis
    using pt' st' fa by (simp add: snapshot_def final_answer_default_def)
qed

lemma initial_plan_only_on_compiled_defaults:
  assumes "HfApiModel_result ev = Inr m"
    and "prompts_yaml ev = Inr (PDict kvs)"
    and "map_of kvs ''system_prompt'' = None"
    and "map_of kvs ''final_answer'' = None"
    and "map_of kvs ''planning'' = Some (PDict pl)"
    and "map_of pl ''initial_plan'' = Some v"
    and "\<forall>k \<in> {''initial_facts'', ''update_facts_pre_messages'', ''update_facts_post_messages'',
               ''update_plan_pre_messages'', ''update_plan_post_messages''}. map_of pl k = None"
    and "pristine s"
  shows "templates_of (create_agent ev s) =
           Some (PDict [(''system_prompt'', system_prompt_default),
                        (''final_answer'', PDict final_answer_default),
                        (''planning'', PDict (map (\<lambda>(k, d). (k, if k = ''initial_plan'' then v else d))
                                                planning_default)),
                        (''managed_agent'', PDict managed_agent_default)])"
proof -
  let ?pt = "DEFAULT_PROMPTS s"
  from assms(8) have pt: "?pt = DEFAULT_PROMPTS module_state" and st: "store s = store module_state"
    by (simp_all add: pristine_def)
  from st have pl: "store s (planning ?pt) = planning_default"
    by (simp add: pt module_state_def)
  from assms(5) have truthy: "py_truthy (PDict kvs)" by auto
  from assms(7) have none: "map_of pl ''initial_facts'' = None"
    "map_of pl ''update_facts_pre_messages'' = None"
    "map_of pl ''update_facts_post_messages'' = None"
    "map_of pl ''update_plan_pre_messages'' = None"
    "map_of pl ''update_plan_post_messages'' = None"
    by simp_all
  have sp: "?pt\<lparr>system_prompt := (case map_of kvs ''system_prompt'' of
                                     None \<Rightarrow> system_prompt ?pt | Some v \<Rightarrow> v)\<rparr> = ?pt"
    using assms(3) by simp
  have "merge_prompts (PDict kvs) (?pt, store s) = merge_planning (PDict kvs) (?pt, store s)"
    using merge_final_answer_absent [OF assms(4), of "(?pt, store s)"] sp
    by (simp add: merge_prompts_def and_then_def merge_system_prompt_mapping)
  also have "\<dots> = (Inr (), (?pt, (store s)(planning ?pt := dict_set planning_default ''initial_plan'' v)))"
    using assms(5,6) none pl by (intro merge_planning_initial_plan_only)
  finally have run: "merge_prompts (PDict kvs) (?pt, store s) =
      (Inr (), (?pt, (store s)(planning ?pt := dict_set planning_default ''initial_plan'' v)))" .
  from create_agent_merged(1) [OF assms(1,2) truthy run]
  show ?thesis
    by (simp add: snapshot_def pt st module_state_def planning_default_def)
qed

subsection \<open>The claims\<close>

text \<open>
  Claim C1. A run that finds no usable \<open>prompts.yaml\<close> hands its agent
  \<open>DEFAULT_PROMPTS\<close> as it stands, and that is the compiled-in set only while no
  earlier call has written to the nested defaults. Called first, with the file missing
  or empty, \<open>create_agent\<close> hands over the compiled-in set; called after a run whose
  document set \<open>planning.initial_plan\<close>, it hands over that run's \<open>initial_plan\<close>,
  because line 118 wrote it into the \<open>planning\<close> dict that \<open>.copy()\<close> left shared
  with \<open>DEFAULT_PROMPTS\<close>.
\<close>

theorem create_agent_no_document_after_override:
  "templates_of (create_agent (env_with (Inl FileNotFoundError)) module_state)
     = Some DEFAULT_PROMPTS_literal \<and>
   templates_of (create_agent (env_with (Inr PNone)) module_state)
     = Some DEFAULT_PROMPTS_literal \<and>
   templates_of (create_agent (env_with (Inr PNone))
                   (snd (create_agent (env_with (Inr initial_plan_doc)) module_state)))
     = Some (PDict [(''system_prompt'', system_prompt_default),
                    (''final_answer'', PDict final_answer_default),
                    (''planning'', PDict (dict_set planning_default ''initial_plan''
                                            (PStr ''Plan in three steps.''))),
                    (''managed_agent'', PDict managed_agent_default)]) \<and>
   templates_of (create_agent (env_with (Inr PNone))
                   (snd (create_agent (env_with (Inr initial_plan_doc)) module_state)))
     \<noteq> Some DEFAULT_PROMPTS_literal \<and>
   templates_of (create_agent (env_with (Inl FileNotFoundError))
                   (snd (create_agent (env_with (Inr initial_plan_doc)) module_state)))
     \<noteq> Some DEFAULT_PROMPTS_literal"
proof -
  let ?s1 = "snd (create_agent (env_with (Inr initial_plan_doc)) module_state)"
  let ?pt = "DEFAULT_PROMPTS module_state"
  let ?planned = "dict_set planning_default ''initial_plan'' (PStr ''Plan in three steps.'')"
  let ?after = "PDict [(''system_prompt'', system_prompt_default),
                    (''final_answer'', PDict final_answer_default),
                    (''planning'', PDict ?planned),
                    (''managed_agent'', PDict managed_agent_default)]"
  have absent: "(\<exists>e. prompts_yaml (env_with (Inl FileNotFoundError)) = Inl e) \<or>
      (\<exists>v. prompts_yaml (env_with (Inl FileNotFoundError)) = Inr v \<and>
           (\<not> py_truthy v \<or> \<not> isinstance_dict v))"
    and empty: "(\<exists>e. prompts_yaml (env_with (Inr PNone)) = Inl e) \<or>
      (\<exists>v. prompts_yaml (env_with (Inr PNone)) = Inr v \<and>
           (\<not> py_truthy v \<or> \<not> isinstance_dict v))"
    by (simp_all add: env_with_def)
  have first_absent: "templates_of (create_agent (env_with (Inl FileNotFoundError)) module_state)
                        = Some DEFAULT_PROMPTS_literal"
    using create_agent_without_document(1) [OF env_with_document(1) absent, of module_state]
    by (simp add: snapshot_module_state)
  have first_empty: "templates_of (create_agent (env_with (Inr PNone)) module_state)
                       = Some DEFAULT_PROMPTS_literal"
    using create_agent_without_document(1) [OF env_with_document(1) empty, of module_state]
    by (simp add: snapshot_module_state)
  have run: "merge_prompts initial_plan_doc (?pt, store module_state) =
               (Inr (), (?pt, (store module_state)(planning ?pt := ?planned)))"
    by (rule merge_initial_plan_doc) (simp add: module_state_objects)
  have truthy: "py_truthy initial_plan_doc"
    by (simp add: initial_plan_doc_def)
  have st1: "store ?s1 = (store module_state)(planning ?pt := ?planned)"
    by (rule create_agent_merged(2) [OF env_with_document truthy run])
  have top1: "DEFAULT_PROMPTS ?s1 = ?pt"
    by (rule create_agent_keeps_top_level)
  have snap1: "snapshot ?s1 (DEFAULT_PROMPTS ?s1) = ?after"
    unfolding top1 snapshot_def st1 by (simp add: module_state_objects)
  have second_empty: "templates_of (create_agent (env_with (Inr PNone)) ?s1) = Some ?after"
    using create_agent_without_document(1) [OF env_with_document(1) empty, of ?s1] snap1
    by simp
  have second_absent: "templates_of (create_agent (env_with (Inl FileNotFoundError)) ?s1) = Some ?after"
    using create_agent_without_document(1) [OF env_with_document(1) absent, of ?s1] snap1
    by simp
  have differ: "?after \<noteq> DEFAULT_PROMPTS_literal"
    by (simp add: DEFAULT_PROMPTS_literal_def planning_default_def)
  show ?thesis
    using first_absent first_empty second_empty second_absent differ by simp
qed

text \<open>
  Claim C2. \<open>DEFAULT_PROMPTS.copy()\<close> copies the top-level dict only: the nested dicts
  stay shared with \<open>DEFAULT_PROMPTS\<close>. A call with the document
  \<open>final_answer: X\<close> therefore writes \<open>X\<close> into the \<open>final_answer\<close> dict of
  \<open>DEFAULT_PROMPTS\<close> itself, and a later call without a document hands its agent
  that \<open>X\<close>, unlike the same call made first.
\<close>

theorem create_agent_writes_shared_defaults:
  "store (snd (create_agent (env_with (Inr final_answer_X_doc)) module_state)) FinalAnswerObj
     = [(''pre_messages'', PStr ''X''), (''post_messages'', PStr ''Hope this helps!'')] \<and>
   store (snd (create_agent (env_with (Inr final_answer_X_doc)) module_state)) FinalAnswerObj
     \<noteq> store module_state FinalAnswerObj \<and>
   templates_of (create_agent (env_with (Inl FileNotFoundError)) module_state)
     = Some DEFAULT_PROMPTS_literal \<and>
   templates_of (create_agent (env_with (Inl FileNotFoundError))
                   (snd (create_agent (env_with (Inr final_answer_X_doc)) module_state)))
     = Some (PDict [(''system_prompt'', system_prompt_default),
                    (''final_answer'', PDict [(''pre_messages'', PStr ''X''),
                                               (''post_messages'', PStr ''Hope this helps!'')]),
                    (''planning'', PDict planning_default),
                    (''managed_agent'', PDict managed_agent_default)]) \<and>
   templates_of (create_agent (env_with (Inl FileNotFoundError))
                   (snd (create_agent (env_with (Inr final_answer_X_doc)) module_state)))
     \<noteq> templates_of (create_agent (env_with (Inl FileNotFoundError)) module_state)"
proof -
  let ?s1 = "snd (create_agent (env_with (Inr final_answer_X_doc)) module_state)"
  let ?X = "[(''pre_messages'', PStr ''X''), (''post_messages'', PStr ''Hope this helps!'')]"
  let ?kvs = "[(''final_answer'', PStr ''X'')]"
  let ?pt = "DEFAULT_PROMPTS module_state"
  let ?st1 = "(store module_state)(final_answer ?pt :=
                 dict_set (store module_state (final_answer ?pt)) ''pre_messages'' (PStr ''X''))"
  have sp: "?pt\<lparr>system_prompt := (case map_of ?kvs ''system_prompt'' of
                                     None \<Rightarrow> system_prompt ?pt | Some v \<Rightarrow> v)\<rparr> = ?pt"
    by simp
  have "merge_prompts (PDict ?kvs) (?pt, store module_state) = merge_planning (PDict ?kvs) (?pt, ?st1)"
    using merge_final_answer_plain [of ?kvs "PStr ''X''" ?pt "store module_state"] sp
    by (simp add: merge_prompts_def and_then_def merge_system_prompt_mapping)
  also have "\<dots> = (Inr (), (?pt, ?st1))"
    by (rule merge_planning_absent) simp
  finally have run: "merge_prompts final_answer_X_doc (?pt, store module_state) = (Inr (), (?pt, ?st1))"
    by (simp add: final_answer_X_doc_def)
  have m1: "HfApiModel_result (env_with (Inr final_answer_X_doc)) = Inr HfApiModel"
    and d1: "prompts_yaml (env_with (Inr final_answer_X_doc)) = Inr final_answer_X_doc"
    and t1: "py_truthy final_answer_X_doc"
    by (simp_all add: env_with_def final_answer_X_doc_def)
  have st1: "store ?s1 = ?st1"
    by (rule create_agent_merged(2) [OF m1 d1 t1 run])
  have fa1: "store ?s1 FinalAnswerObj = ?X"
    unfolding st1 by (simp add: module_state_def final_answer_default_def)
  have others1: "store ?s1 PlanningObj = planning_default"
    "store ?s1 ManagedAgentObj = managed_agent_default"
    unfolding st1 by (simp_all add: module_state_def)
  have m0: "HfApiModel_result (env_with (Inl FileNotFoundError)) = Inr HfApiModel"
    by (simp add: env_with_def)
  have d0: "(\<exists>e. prompts_yaml (env_with (Inl FileNotFoundError)) = Inl e) \<or>
      (\<exists>v. prompts_yaml (env_with (Inl FileNotFoundError)) = Inr v \<and>
           (\<not> py_truthy v \<or> \<not> isinstance_dict v))"
    by (simp add: env_with_def)
  have dp1: "DEFAULT_PROMPTS ?s1 = ?pt"
    by (rule create_agent_keeps_top_level)
  have first: "templates_of (create_agent (env_with (Inl FileNotFoundError)) module_state)
                 = Some DEFAULT_PROMPTS_literal"
    using create_agent_without_document [OF m0 d0, of module_state] snapshot_module_state
    by simp
  have second: "templates_of (create_agent (env_with (Inl FileNotFoundError)) ?s1)
     = Some (PDict [(''system_prompt'', system_prompt_default),
                    (''final_answer'', PDict ?X),
                    (''planning'', PDict planning_default),
                    (''managed_agent'', PDict managed_agent_default)])"
    using create_agent_without_document [OF m0 d0, of ?s1] dp1 fa1 others1
    by (simp add: snapshot_def module_state_def)
  have "store module_state FinalAnswerObj \<noteq> ?X"
    by (simp add: module_state_def final_answer_default_def)
  with fa1 first second show ?thesis
    by (simp add: DEFAULT_PROMPTS_literal_def final_answer_default_def)
qed

text \<open>
  Claim C3. Whatever the input string and whatever the libraries do,
  \<open>get_current_time_in_timezone\<close> returns a string and raises nothing; when
  \<open>pytz.timezone\<close> rejects the identifier, the string returned is the error message
  built at line 46, which contains \<open>Error fetching time for timezone\<close>.
\<close>

theorem get_current_time_in_timezone_never_raises:
  "\<exists>text. fst (get_current_time_in_timezone cenv timezone s) = Inr text \<and>
     (\<forall>e. pytz_timezone cenv timezone = Inl e \<longrightarrow>
        text = ''Error fetching time for timezone '' @ [CHR 0x27] @ timezone @ [CHR 0x27]
                 @ '': '' @ str_of e \<and>
        str_contains ''Error fetching time for timezone'' text)"
proof (cases "pytz_timezone cenv timezone")
  case (Inl e)
  have "str_contains ''Error fetching time for timezone''
          (''Error fetching time for timezone'' @ ('' '' @ [CHR 0x27] @ timezone @ [CHR 0x27] @ '': '' @ str_of e))"
    by (rule str_contains_prefix)
  with Inl show ?thesis
    by (simp add: get_current_time_in_timezone_def time_error_def Let_def)
next
  case (Inr tz)
  then show ?thesis
    by (cases "now_strftime cenv tz ''%Y-%m-%d %H:%M:%S''")
       (simp_all add: get_current_time_in_timezone_def time_error_def Let_def)
qed

theorem get_current_time_in_timezone_never_raises_witness:
  "pytz_timezone unknown_zone_clock ''Not/ARealZone''
     = Inl (Exn ''UnknownTimeZoneError'' False ([CHR 0x27] @ ''Not/ARealZone'' @ [CHR 0x27])) \<and>
   (\<exists>text. fst (get_current_time_in_timezone unknown_zone_clock ''Not/ARealZone'' module_state) = Inr text \<and>
      str_contains ''Error fetching time for timezone'' text)"
  using get_current_time_in_timezone_never_raises [of unknown_zone_clock "''Not/ARealZone''" module_state]
  by (simp add: unknown_zone_clock_def)

text \<open>
  Claim C4. When \<open>HfApiModel()\<close> raises \<open>e\<close>, \<open>create_agent\<close> raises a
  \<open>RuntimeError\<close> whose message is \<open>Failed to initialize model: \<close> followed by
  \<open>str(e)\<close>, and returns no agent. The run ends there: after the call of
  \<open>HfApiModel\<close> only the error record is written, so neither \<open>load_tool\<close> nor
  \<open>prompts.yaml\<close> is touched and the store is as before.
\<close>

theorem create_agent_model_failure:
  "HfApiModel_result ev = Inl e \<Longrightarrow>
     create_agent ev s =
       (Inl (Exn ''RuntimeError'' False (''Failed to initialize model: '' @ str_of e)),
        s\<lparr>trace := trace s @ [Called New_FinalAnswerTool, Called New_VisitWebpageTool,
                               Called New_HfApiModel,
                               Log ERROR (''Error loading model: '' @ str_of e)]\<rparr>)"
  by (simp add: create_agent_def emit_def Let_def)

theorem create_agent_model_failure_witness:
  "HfApiModel_result model_down = Inl ConnectionError \<and>
   fst (create_agent model_down module_state)
     = Inl (Exn ''RuntimeError'' False ''Failed to initialize model: network unreachable'') \<and>
   store (snd (create_agent model_down module_state)) = store module_state \<and>
   trace (snd (create_agent model_down module_state))
     = [Called New_FinalAnswerTool, Called New_VisitWebpageTool, Called New_HfApiModel,
        Log ERROR ''Error loading model: network unreachable'']"
proof -
  have m: "HfApiModel_result model_down = Inl ConnectionError"
    by (simp add: model_down_def env_with_def)
  from create_agent_model_failure [OF m, of module_state] m
  show ?thesis by (simp add: ConnectionError_def module_state_def)
qed

text \<open>
  Claim C5. When the model loads, \<open>create_agent\<close> goes on to the constructor
  whatever \<open>load_tool\<close> does, and nothing raised by \<open>load_tool\<close> reaches the caller:
  the outcome of the call is the outcome of \<open>CodeAgent(...)\<close>, the agent when the
  constructor accepts its arguments. The tool list handed over is exactly the four
  local and imported tools when \<open>load_tool\<close> raised, and those four followed by the
  loaded tool when it returned one.
\<close>

theorem create_agent_optional_tool:
  assumes "HfApiModel_result ev = Inr m"
  shows "\<exists>kwargs templates.
           templates_of (create_agent ev s) = Some templates \<and>
           fst (create_agent ev s) =
             (case CodeAgent_result ev kwargs templates of None \<Rightarrow> Inr kwargs | Some e \<Rightarrow> Inl e) \<and>
           (case load_tool_result ev of
              Inl e \<Rightarrow> tools kwargs = [My_custom_tool, Get_current_time_in_timezone, FinalAnswerTool, VisitWebpageTool]
            | Inr t \<Rightarrow> tools kwargs = [My_custom_tool, Get_current_time_in_timezone, FinalAnswerTool, VisitWebpageTool, t])"
proof -
  let ?l = "load_prompt_templates ev (state_before_prompts ev s)"
  from create_agent_reaches_constructor [OF assms, of s]
  obtain kwargs where pt: "prompt_templates kwargs = fst ?l"
    and tl: "tools kwargs = local_tools @ (case load_tool_result ev of Inl e \<Rightarrow> [] | Inr t \<Rightarrow> [t])"
    and out: "fst (create_agent ev s) =
       (case CodeAgent_result ev kwargs (snapshot (snd ?l) (prompt_templates kwargs)) of
          None \<Rightarrow> Inr kwargs | Some e \<Rightarrow> Inl e)"
    by blast
  have "templates_of (create_agent ev s) = Some (snapshot (snd ?l) (prompt_templates kwargs))"
    using create_agent_hands_over(1) [OF assms, of s] pt by simp
  moreover have "case load_tool_result ev of
              Inl e \<Rightarrow> tools kwargs = [My_custom_tool, Get_current_time_in_timezone, FinalAnswerTool, VisitWebpageTool]
            | Inr t \<Rightarrow> tools kwargs = [My_custom_tool, Get_current_time_in_timezone, FinalAnswerTool, VisitWebpageTool, t]"
    using tl by (simp add: local_tools_def split: sum.splits)
  ultimately show ?thesis using out by blast
qed

theorem create_agent_optional_tool_witness:
  "HfApiModel_result hub_down = Inr HfApiModel \<and> load_tool_result hub_down = Inl ConnectionError \<and>
   (\<forall>kwargs templates. CodeAgent_result hub_down kwargs templates = None) \<and>
   (\<exists>a. fst (create_agent hub_down module_state) = Inr a \<and>
      tools a = [My_custom_tool, Get_current_time_in_timezone, FinalAnswerTool, VisitWebpageTool])"
proof -
  have m: "HfApiModel_result hub_down = Inr HfApiModel"
    and l: "load_tool_result hub_down = Inl ConnectionError"
    and c: "\<forall>kwargs templates. CodeAgent_result hub_down kwargs templates = None"
    by (simp_all add: hub_down_def env_with_def)
  from create_agent_optional_tool [OF m, of module_state] l c
  have "\<exists>a. fst (create_agent hub_down module_state) = Inr a \<and>
      tools a = [My_custom_tool, Get_current_time_in_timezone, FinalAnswerTool, VisitWebpageTool]"
    by auto
  with m l c show ?thesis by blast
qed

text \<open>
  Claim C6. With the document \<open>final_answer: X\<close> the merged set has
  \<open>pre_messages\<close> equal to \<open>X\<close>; its \<open>post_messages\<close> is the compiled-in default
  on a first call, but after a run whose document set \<open>final_answer.post_messages\<close>
  to \<open>P\<close> it is \<open>P\<close>: line 109 of that run wrote into the \<open>final_answer\<close> dict
  shared with \<open>DEFAULT_PROMPTS\<close>.
\<close>

theorem create_agent_final_answer_plain_after_override:
  "templates_of (create_agent (env_with (Inr final_answer_X_doc)) module_state)
     = Some (PDict [(''system_prompt'', system_prompt_default),
                    (''final_answer'', PDict [(''pre_messages'', PStr ''X''),
                                               (''post_messages'', PStr ''Hope this helps!'')]),
                    (''planning'', PDict planning_default),
                    (''managed_agent'', PDict managed_agent_default)]) \<and>
   templates_of (create_agent (env_with (Inr final_answer_X_doc))
                   (snd (create_agent (env_with (Inr post_messages_P_doc)) module_state)))
     = Some (PDict [(''system_prompt'', system_prompt_default),
                    (''final_answer'', PDict [(''pre_messages'', PStr ''X''),
                                               (''post_messages'', PStr ''P'')]),
                    (''planning'', PDict planning_default),
                    (''managed_agent'', PDict managed_agent_default)]) \<and>
   map_of final_answer_default ''post_messages'' = Some (PStr ''Hope this helps!'') \<and>
   PStr ''P'' \<noteq> PStr ''Hope this helps!''"
proof -
  let ?s1 = "snd (create_agent (env_with (Inr post_messages_P_doc)) module_state)"
  let ?pt = "DEFAULT_PROMPTS module_state"
  let ?fa1 = "dict_set (store module_state (final_answer ?pt)) ''post_messages'' (PStr ''P'')"
  have tx: "py_truthy final_answer_X_doc" and tp: "py_truthy post_messages_P_doc"
    by (simp_all add: final_answer_X_doc_def post_messages_P_doc_def)
  have first: "templates_of (create_agent (env_with (Inr final_answer_X_doc)) module_state)
     = Some (snapshot (module_state\<lparr>store := (store module_state)(final_answer ?pt :=
               dict_set (store module_state (final_answer ?pt)) ''pre_messages'' (PStr ''X''))\<rparr>) ?pt)"
    by (rule create_agent_merged(1) [OF env_with_document tx merge_final_answer_X_doc])
  have st1: "store ?s1 = (store module_state)(final_answer ?pt := ?fa1)"
    by (rule create_agent_merged(2) [OF env_with_document tp merge_post_messages_P_doc])
  have top1: "DEFAULT_PROMPTS ?s1 = ?pt"
    by (rule create_agent_keeps_top_level)
  have run1: "merge_prompts final_answer_X_doc (DEFAULT_PROMPTS ?s1, store ?s1) =
      (Inr (), (?pt, (store ?s1)(final_answer ?pt :=
                 dict_set (store ?s1 (final_answer ?pt)) ''pre_messages'' (PStr ''X''))))"
    unfolding top1 by (rule merge_final_answer_X_doc)
  have second: "templates_of (create_agent (env_with (Inr final_answer_X_doc)) ?s1)
     = Some (snapshot (?s1\<lparr>store := (store ?s1)(final_answer ?pt :=
               dict_set (store ?s1 (final_answer ?pt)) ''pre_messages'' (PStr ''X''))\<rparr>) ?pt)"
    by (rule create_agent_merged(1) [OF env_with_document tx run1])
  have a: "snapshot (module_state\<lparr>store := (store module_state)(final_answer ?pt :=
               dict_set (store module_state (final_answer ?pt)) ''pre_messages'' (PStr ''X''))\<rparr>) ?pt
     = PDict [(''system_prompt'', system_prompt_default),
              (''final_answer'', PDict [(''pre_messages'', PStr ''X''),
                                         (''post_messages'', PStr ''Hope this helps!'')]),
              (''planning'', PDict planning_default),
              (''managed_agent'', PDict managed_agent_default)]"
    by (simp add: snapshot_def module_state_objects final_answer_default_def)
  have b: "snapshot (?s1\<lparr>store := (store ?s1)(final_answer ?pt :=
               dict_set (store ?s1 (final_answer ?pt)) ''pre_messages'' (PStr ''X''))\<rparr>) ?pt
     = PDict [(''system_prompt'', system_prompt_default),
              (''final_answer'', PDict [(''pre_messages'', PStr ''X''),
                                         (''post_messages'', PStr ''P'')]),
              (''planning'', PDict planning_default),
              (''managed_agent'', PDict managed_agent_default)]"
    unfolding st1 by (simp add: snapshot_def module_state_objects final_answer_default_def)
  show ?thesis
    using first second a b by (simp add: final_answer_default_def)
qed

text \<open>
  Claim C7. With a document that sets only \<open>planning.initial_plan\<close> (and an unknown
  sub-key) the merged set is, on a first call, the compiled-in set with that one field
  replaced and no unknown key. After a run with the document \<open>final_answer: X\<close> the
  same document yields a set that differs from the compiled-in one in a second field,
  \<open>final_answer.pre_messages\<close>, which that run wrote into the shared dict.
\<close>

theorem create_agent_initial_plan_only_after_override:
  "templates_of (create_agent (env_with (Inr initial_plan_doc)) module_state)
     = Some (PDict [(''system_prompt'', system_prompt_default),
                    (''final_answer'', PDict final_answer_default),
                    (''planning'', PDict (map (\<lambda>(k, d). (k, if k = ''initial_plan''
                                                              then PStr ''Plan in three steps.'' else d))
                                            planning_default)),
                    (''managed_agent'', PDict managed_agent_default)]) \<and>
   templates_of (create_agent (env_with (Inr initial_plan_doc))
                   (snd (create_agent (env_with (Inr final_answer_X_doc)) module_state)))
     = Some (PDict [(''system_prompt'', system_prompt_default),
                    (''final_answer'', PDict [(''pre_messages'', PStr ''X''),
                                               (''post_messages'', PStr ''Hope this helps!'')]),
                    (''planning'', PDict (map (\<lambda>(k, d). (k, if k = ''initial_plan''
                                                              then PStr ''Plan in three steps.'' else d))
                                            planning_default)),
                    (''managed_agent'', PDict managed_agent_default)]) \<and>
   PDict [(''pre_messages'', PStr ''X''), (''post_messages'', PStr ''Hope this helps!'')]
     \<noteq> PDict final_answer_default"
proof -
  let ?s1 = "snd (create_agent (env_with (Inr final_answer_X_doc)) module_state)"
  let ?pt = "DEFAULT_PROMPTS module_state"
  let ?planned = "dict_set planning_default ''initial_plan'' (PStr ''Plan in three steps.'')"
  have tx: "py_truthy final_answer_X_doc" and ti: "py_truthy initial_plan_doc"
    by (simp_all add: final_answer_X_doc_def initial_plan_doc_def)
  have planned: "?planned = map (\<lambda>(k, d). (k, if k = ''initial_plan''
                                  then PStr ''Plan in three steps.'' else d)) planning_default"
    by (simp add: planning_default_def)
  have run0: "merge_prompts initial_plan_doc (?pt, store module_state) =
               (Inr (), (?pt, (store module_state)(planning ?pt := ?planned)))"
    by (rule merge_initial_plan_doc) (simp add: module_state_objects)
  have first: "templates_of (create_agent (env_with (Inr initial_plan_doc)) module_state)
     = Some (snapshot (module_state\<lparr>store := (store module_state)(planning ?pt := ?planned)\<rparr>) ?pt)"
    by (rule create_agent_merged(1) [OF env_with_document ti run0])
  have st1: "store ?s1 = (store module_state)(final_answer ?pt :=
               dict_set (store module_state (final_answer ?pt)) ''pre_messages'' (PStr ''X''))"
    by (rule create_agent_merged(2) [OF env_with_document tx merge_final_answer_X_doc])
  have top1: "DEFAULT_PROMPTS ?s1 = ?pt"
    by (rule create_agent_keeps_top_level)
  have pl1: "store ?s1 (planning ?pt) = planning_default"
    unfolding st1 by (simp add: module_state_objects)
  have run1: "merge_prompts initial_plan_doc (DEFAULT_PROMPTS ?s1, store ?s1) =
               (Inr (), (?pt, (store ?s1)(planning ?pt := ?planned)))"
    unfolding top1 by (rule merge_initial_plan_doc) (rule pl1)
  have second: "templates_of (create_agent (env_with (Inr initial_plan_doc)) ?s1)
     = Some (snapshot (?s1\<lparr>store := (store ?s1)(planning ?pt := ?planned)\<rparr>) ?pt)"
    by (rule create_agent_merged(1) [OF env_with_document ti run1])
  have a: "snapshot (module_state\<lparr>store := (store module_state)(planning ?pt := ?planned)\<rparr>) ?pt
     = PDict [(''system_prompt'', system_prompt_default),
              (''final_answer'', PDict final_answer_default),
              (''planning'', PDict ?planned),
              (''managed_agent'', PDict managed_agent_default)]"
    by (simp add: snapshot_def module_state_objects)
  have b: "snapshot (?s1\<lparr>store := (store ?s1)(planning ?pt := ?planned)\<rparr>) ?pt
     = PDict [(''system_prompt'', system_prompt_default),
              (''final_answer'', PDict [(''pre_messages'', PStr ''X''),
                                         (''post_messages'', PStr ''Hope this helps!'')]),
              (''planning'', PDict ?planned),
              (''managed_agent'', PDict managed_agent_default)]"
    unfolding st1 by (simp add: snapshot_def module_state_objects final_answer_default_def)
  have c: "PDict [(''pre_messages'', PStr ''X''), (''post_messages'', PStr ''Hope this helps!'')]
             \<noteq> PDict final_answer_default"
    by (simp add: final_answer_default_def)
  show ?thesis
    unfolding first second a b planned [symmetric] using c by simp
qed

text \<open>
  Claim C8. For every task, \<open>process_request\<close> returns a string and raises nothing:
  when \<open>agent(task)\<close> raises \<open>e\<close>, the string is
  \<open>Error processing your request: \<close> followed by \<open>str(e)\<close>; otherwise it is the
  text the agent returned.
\<close>

theorem process_request_never_raises:
  "\<exists>text. fst (process_request agent_call task s) = Inr text \<and>
     (\<forall>e s'. agent_call task (emit (Called (Call_agent task)) s) = (Inl e, s') \<longrightarrow>
        text = ''Error processing your request: '' @ str_of e) \<and>
     (\<forall>result s'. agent_call task (emit (Called (Call_agent task)) s) = (Inr result, s') \<longrightarrow>
        text = result)"
  by (simp add: process_request_def split: prod.splits sum.splits)

theorem process_request_never_raises_witness:
  "failing_agent ''What time is it?'' (emit (Called (Call_agent ''What time is it?'')) module_state)
     = (Inl (Exn ''AgentGenerationError'' False ''model endpoint timed out''),
        emit (Called (Call_agent ''What time is it?'')) module_state) \<and>
   fst (process_request failing_agent ''What time is it?'' module_state)
     = Inr ''Error processing your request: model endpoint timed out''"
proof -
  have f: "failing_agent ''What time is it?'' (emit (Called (Call_agent ''What time is it?'')) module_state)
     = (Inl (Exn ''AgentGenerationError'' False ''model endpoint timed out''),
        emit (Called (Call_agent ''What time is it?'')) module_state)"
    by (simp add: failing_agent_def)
  from process_request_never_raises [of failing_agent "''What time is it?''" module_state]
  obtain out where r: "fst (process_request failing_agent ''What time is it?'' module_state) = Inr out"
    and e: "\<forall>e s'. failing_agent ''What time is it?'' (emit (Called (Call_agent ''What time is it?'')) module_state) = (Inl e, s')
              \<longrightarrow> out = ''Error processing your request: '' @ str_of e"
    by blast
  from e f have "out = ''Error processing your request: '' @ ''model endpoint timed out''"
    by (metis exn.sel(3))
  with r f show ?thesis by simp
qed

text \<open>
  Claim C9. Whatever the document, also one with a \<open>managed_agent\<close> key, the
  \<open>managed_agent\<close> section of the merged template set is the compiled-in default.
  The hypotheses on the state hold when the module is loaded and, by the last two
  conjuncts, after every call of \<open>create_agent\<close>, also one that has written to the
  other nested defaults.
\<close>

theorem create_agent_managed_agent_fixed:
  assumes "HfApiModel_result ev = Inr m"
    and "DEFAULT_PROMPTS s = DEFAULT_PROMPTS module_state"
    and "store s ManagedAgentObj = managed_agent_default"
  shows "\<exists>t. templates_of (create_agent ev s) = Some t \<and>
           py_getitem t ''managed_agent'' = Inr (PDict managed_agent_default) \<and>
           DEFAULT_PROMPTS (snd (create_agent ev s)) = DEFAULT_PROMPTS module_state \<and>
           store (snd (create_agent ev s)) ManagedAgentObj = managed_agent_default"
proof -
  let ?s5 = "state_before_prompts ev s"
  have s5: "store ?s5 = store s" "DEFAULT_PROMPTS ?s5 = DEFAULT_PROMPTS s"
    by (rule state_before_prompts_defaults)+
  from load_prompt_templates_frame [of ?s5 ev ManagedAgentObj] s5 assms(2,3)
  have "managed_agent (fst (load_prompt_templates ev ?s5)) = ManagedAgentObj"
    and "store (snd (load_prompt_templates ev ?s5)) ManagedAgentObj = managed_agent_default"
    and "DEFAULT_PROMPTS (snd (load_prompt_templates ev ?s5)) = DEFAULT_PROMPTS module_state"
    by (simp_all add: refs_kept_def module_state_def)
  with create_agent_hands_over [OF assms(1), of s] show ?thesis
    by (simp add: snapshot_def)
qed

theorem create_agent_managed_agent_fixed_witness:
  "HfApiModel_result (env_with (Inr managed_agent_doc)) = Inr HfApiModel \<and>
   store module_state ManagedAgentObj = managed_agent_default \<and>
   (\<exists>t. templates_of (create_agent (env_with (Inr managed_agent_doc)) module_state) = Some t \<and>
      py_getitem t ''managed_agent'' = Inr (PDict managed_agent_default))"
proof -
  have m: "HfApiModel_result (env_with (Inr managed_agent_doc)) = Inr HfApiModel"
    by (simp add: env_with_def)
  have o: "store module_state ManagedAgentObj = managed_agent_default"
    by (simp add: module_state_def)
  from create_agent_managed_agent_fixed [OF m refl o] m o
  show ?thesis by blast
qed

text \<open>
  Claim C10. Once the two Gradio imports have succeeded, an exception from
  \<open>create_agent\<close>, from building the page or from \<open>demo.launch\<close> is caught by
  \<open>run_app\<close>: it writes the error record, prints \<open>Critical error: \<close> followed by
  \<open>str(e)\<close> and returns normally. An exception leaves \<open>run_app\<close> only when the
  import statements raised it, and an \<open>ImportError\<close> among them is recorded and
  raised again.
\<close>

theorem run_app_contains_failures:
  "(gradio_import ev = Inr () \<longrightarrow>
      (\<forall>e s2. create_agent ev (emit (Called Import_gradio) s) = (Inl e, s2) \<longrightarrow>
         run_app ev s = Some (critical_error e s2)) \<and>
      (\<forall>a s2 e. create_agent ev (emit (Called Import_gradio) s) = (Inr a, s2) \<and>
                 blocks_result ev = Inl e \<longrightarrow>
         run_app ev s = Some (critical_error e (emit (Called Build_blocks) s2))) \<and>
      (\<forall>a s2 e. create_agent ev (emit (Called Import_gradio) s) = (Inr a, s2) \<and>
                 blocks_result ev = Inr () \<and> launch_result ev = Some (Inl e) \<longrightarrow>
         run_app ev s = Some (critical_error e (emit (Called Launch_demo) (emit (Called Build_blocks) s2))))) \<and>
   (\<forall>e s2. critical_error e s2 =
       (Inr (), s2\<lparr>trace := trace s2 @ [Log ERROR (''Failed to start application: '' @ str_of e),
                                         Print (''Critical error: '' @ str_of e)]\<rparr>)) \<and>
   (\<forall>e s'. run_app ev s = Some (Inl e, s') \<longrightarrow> gradio_import ev = Inl e) \<and>
   (\<forall>e. gradio_import ev = Inl e \<and> is_ImportError e \<longrightarrow>
      run_app ev s = Some (Inl e, emit (Log ERROR (''Error importing Gradio: '' @ str_of e))
                                    (emit (Called Import_gradio) s)))"
proof (intro conjI impI allI)
  fix e s2
  assume "gradio_import ev = Inr ()" "create_agent ev (emit (Called Import_gradio) s) = (Inl e, s2)"
  then show "run_app ev s = Some (critical_error e s2)"
    by (simp add: run_app_def Let_def)
next
  fix a s2 e
  assume "gradio_import ev = Inr ()"
    "create_agent ev (emit (Called Import_gradio) s) = (Inr a, s2) \<and> blocks_result ev = Inl e"
  then show "run_app ev s = Some (critical_error e (emit (Called Build_blocks) s2))"
    by (simp add: run_app_def Let_def)
next
  fix a s2 e
  assume "gradio_import ev = Inr ()"
    "create_agent ev (emit (Called Import_gradio) s) = (Inr a, s2) \<and>
     blocks_result ev = Inr () \<and> launch_result ev = Some (Inl e)"
  then show "run_app ev s = Some (critical_error e (emit (Called Launch_demo) (emit (Called Build_blocks) s2)))"
    by (simp add: run_app_def Let_def)
next
  fix e s2
  show "critical_error e s2 =
       (Inr (), s2\<lparr>trace := trace s2 @ [Log ERROR (''Failed to start application: '' @ str_of e),
                                         Print (''Critical error: '' @ str_of e)]\<rparr>)"
    by (simp add: critical_error_def emit_def)
next
  fix e s'
  assume "run_app ev s = Some (Inl e, s')"
  then show "gradio_import ev = Inl e"
    by (auto simp add: run_app_def Let_def critical_error_def
          split: sum.splits prod.splits option.splits if_splits)
next
  fix e
  assume "gradio_import ev = Inl e \<and> is_ImportError e"
  then show "run_app ev s = Some (Inl e, emit (Log ERROR (''Error importing Gradio: '' @ str_of e))
                                    (emit (Called Import_gradio) s))"
    by (simp add: run_app_def Let_def)
qed

theorem run_app_contains_failures_witness:
  "gradio_import model_down = Inr () \<and>
   fst (create_agent model_down (emit (Called Import_gradio) module_state))
     = Inl (Exn ''RuntimeError'' False ''Failed to initialize model: network unreachable'') \<and>
   map_option fst (run_app model_down module_state) = Some (Inr ()) \<and>
   map_option (\<lambda>r. trace (snd r)) (run_app model_down module_state) =
     Some [Called Import_gradio, Called New_FinalAnswerTool, Called New_VisitWebpageTool,
           Called New_HfApiModel, Log ERROR ''Error loading model: network unreachable'',
           Log ERROR ''Failed to start application: Failed to initialize model: network unreachable'',
           Print ''Critical error: Failed to initialize model: network unreachable''] \<and>
   is_ImportError (Exn ''ModuleNotFoundError'' True (''No module named '' @ [CHR 0x27] @ ''gradio'' @ [CHR 0x27])) \<and>
   map_option fst (run_app gradio_missing module_state) =
     Some (Inl (Exn ''ModuleNotFoundError'' True (''No module named '' @ [CHR 0x27] @ ''gradio'' @ [CHR 0x27])))"
proof -
  let ?s1 = "emit (Called Import_gradio) module_state"
  let ?e = "Exn ''RuntimeError'' False ''Failed to initialize model: network unreachable''"
  let ?s2 = "snd (create_agent model_down ?s1)"
  let ?i = "Exn ''ModuleNotFoundError'' True (''No module named '' @ [CHR 0x27] @ ''gradio'' @ [CHR 0x27])"
  have g: "gradio_import model_down = Inr ()"
    by (simp add: model_down_def env_with_def)
  have c1: "fst (create_agent model_down ?s1) = Inl ?e"
    by (simp add: create_agent_def model_down_def env_with_def ConnectionError_def Let_def)
  then have c: "create_agent model_down ?s1 = (Inl ?e, ?s2)"
    by (simp add: prod_eq_iff)
  have t: "trace ?s2 = [Called Import_gradio, Called New_FinalAnswerTool, Called New_VisitWebpageTool,
                        Called New_HfApiModel, Log ERROR ''Error loading model: network unreachable'']"
    by (simp add: create_agent_def model_down_def env_with_def ConnectionError_def Let_def emit_def
          module_state_def)
  have gi: "gradio_import gradio_missing = Inl ?i \<and> is_ImportError ?i"
    by (simp add: gradio_missing_def env_with_def)
  note main = run_app_contains_failures [of model_down module_state]
  from main g c have r: "run_app model_down module_state = Some (critical_error ?e ?s2)"
    by blast
  from main have ce: "critical_error ?e ?s2 =
       (Inr (), ?s2\<lparr>trace := trace ?s2 @ [Log ERROR (''Failed to start application: '' @ str_of ?e),
                                           Print (''Critical error: '' @ str_of ?e)]\<rparr>)"
    by blast
  from run_app_contains_failures [of gradio_missing module_state] gi
  have i: "run_app gradio_missing module_state =
             Some (Inl ?i, emit (Log ERROR (''Error importing Gradio: '' @ str_of ?i))
                                (emit (Called Import_gradio) module_state))"
    by blast
  show ?thesis
    using g c1 r ce t i by simp
qed

end
